theory Spec2Isabelle
  imports Main "HOL-Library.Char_ord" "HOL-Library.List_Lexorder"
begin

section \<open>The comparison helpers of pycallnumber/utils.py\<close>

text \<open>
  The module is Python 2 code. This theory embeds its comparison framework: the class
  \<open>ComparableObjectMixin\<close> (methods \<open>_compare\<close>, \<open>_get_other\<close>, the six
  rich-comparison methods and the default \<open>cmp_key\<close>) and the class \<open>Infinity\<close>
  (methods \<open>__init__\<close>, \<open>__repr__\<close>, \<open>__neg__\<close>, \<open>_get_other\<close>, \<open>cmp_key\<close>).
\<close>

subsection \<open>Values, keys and exceptions\<close>

text \<open>
  An \<open>Infinity\<close> object has one attribute, \<open>sign\<close>, a Python string.
\<close>

record infinity =
  sign :: string

text \<open>
  The values that take part in a comparison:
  \<^item> \<open>Builtin s\<close>: a value of a built-in type (a \<open>str\<close>, an \<open>int\<close>, \<open>None\<close>, ...) whose
    textual form \<open>str(v)\<close> is \<open>s\<close>. It has no attribute \<open>cmp_key\<close>, and its own
    comparison methods do not handle an operand of one of this module's classes.
  \<^item> \<open>Infinity i\<close>: an instance of \<open>Infinity\<close> with attributes \<open>i\<close>.
  \<^item> \<open>User c s\<close>: an instance of a class \<open>c\<close> that derives from
    \<open>ComparableObjectMixin\<close> (other than \<open>Infinity\<close>), inherits \<open>_compare\<close>,
    \<open>_get_other\<close> and the six comparison methods unchanged, and whose textual form
    \<open>str(v)\<close> is \<open>s\<close>. Whether \<open>c\<close> overrides \<open>cmp_key\<close> is recorded in the class
    table below.
\<close>

datatype pyval =
    Builtin string
  | Infinity infinity
  | User nat string

text \<open>
  The exceptions a key computation can raise. \<open>_compare\<close> tells \<open>TypeError\<close> and
  \<open>AttributeError\<close> apart from every other exception class.
\<close>

datatype error = TypeError | AttributeError | OtherError string

text \<open>
  Comparison keys. The \<open>cmp_key\<close> methods of this module return a \<open>str\<close> or \<open>None\<close>.
\<close>

datatype key = KNone | KStr string

text \<open>
  The class table: for each user class, its override of \<open>cmp_key(self, other, op)\<close> if it
  has one. An override is any function of \<open>self\<close>, \<open>other\<close> and \<open>op\<close> that returns a key
  or raises.
\<close>

type_synonym classes = "nat \<Rightarrow> (pyval \<Rightarrow> pyval \<Rightarrow> string \<Rightarrow> error + key) option"

subsection \<open>Python 2 primitives used by the module\<close>

text \<open>
  Python 2 compares two \<open>str\<close> values bytewise and lexicographically, which is the order
  of \<^typ>\<open>string\<close> here. \<open>None\<close> is smaller than every string and equal to itself only.
\<close>

fun key_lt :: "key \<Rightarrow> key \<Rightarrow> bool" where
  "key_lt KNone KNone = False"
| "key_lt KNone (KStr b) = True"
| "key_lt (KStr a) KNone = False"
| "key_lt (KStr a) (KStr b) = (a < b)"

fun key_le :: "key \<Rightarrow> key \<Rightarrow> bool" where
  "key_le KNone KNone = True"
| "key_le KNone (KStr b) = True"
| "key_le (KStr a) KNone = False"
| "key_le (KStr a) (KStr b) = (a \<le> b)"

definition key_gt :: "key \<Rightarrow> key \<Rightarrow> bool" where
  "key_gt a b = key_lt b a"

definition key_ge :: "key \<Rightarrow> key \<Rightarrow> bool" where
  "key_ge a b = key_le b a"

text \<open>\<open>'{} '.format(k)\<close>: the textual form of the key, then a space.\<close>

fun format_space :: "key \<Rightarrow> string" where
  "format_space KNone = ''None ''"
| "format_space (KStr s) = s @ '' ''"

text \<open>\<open>isinstance(v, Infinity)\<close> and \<open>hasattr(v, 'cmp_key')\<close>.\<close>

fun isinstance_Infinity :: "pyval \<Rightarrow> bool" where
  "isinstance_Infinity (Infinity i) = True"
| "isinstance_Infinity v = False"

fun hasattr_cmp_key :: "pyval \<Rightarrow> bool" where
  "hasattr_cmp_key (Builtin s) = False"
| "hasattr_cmp_key v = True"

subsection \<open>Class Infinity: construction, textual form, negation\<close>

text \<open>\<open>__init__\<close> sets \<open>self.sign = 'pos'\<close>.\<close>

definition Infinity_init :: "infinity \<Rightarrow> infinity" where
  "Infinity_init self = self\<lparr>sign := ''pos''\<rparr>"

text \<open>\<open>__repr__\<close>: \<open>'<{} infinity>'.format(self.sign)\<close>.\<close>

definition Infinity_repr :: "infinity \<Rightarrow> string" where
  "Infinity_repr self = ''<'' @ sign self @ '' infinity>''"

text \<open>\<open>str(v)\<close>. \<open>Infinity\<close> defines no \<open>__str__\<close>, so \<open>str\<close> uses \<open>__repr__\<close>.\<close>

fun str_of :: "pyval \<Rightarrow> string" where
  "str_of (Builtin s) = s"
| "str_of (Infinity i) = Infinity_repr i"
| "str_of (User c s) = s"

text \<open>
  Objects live in a store and are referred to by address, so that what \<open>__neg__\<close> does to
  its receiver can be stated. The store is the list of the \<open>Infinity\<close> objects allocated
  so far; an address is an index into it.
\<close>

type_synonym store = "infinity list"

text \<open>
  The call \<open>Infinity()\<close>: allocate a new object, run \<open>__init__\<close> on it, return it. The
  new object has no attribute before \<open>__init__\<close> runs; the record starts with an empty
  \<open>sign\<close>, which \<open>__init__\<close> overwrites.
\<close>

definition Infinity_new :: "store \<Rightarrow> nat \<times> store" where
  "Infinity_new h = (length h, h @ [Infinity_init \<lparr>sign = []\<rparr>])"

text \<open>
  \<open>__neg__\<close>: \<open>ret = Infinity()\<close>, then \<open>ret.sign = 'neg' if self.sign == 'pos' else 'pos'\<close>,
  then \<open>return ret\<close>. A reference always points into the store; the model returns
  \<open>None\<close> for an address that does not.
\<close>

definition Infinity_neg :: "store \<Rightarrow> nat \<Rightarrow> (nat \<times> store) option" where
  "Infinity_neg h self =
     (if self < length h then
        (case Infinity_new h of (ret, h1) \<Rightarrow>
           Some (ret, h1[ret := (h1 ! ret)\<lparr>sign :=
                   (if sign (h1 ! self) = ''pos'' then ''neg'' else ''pos'')\<rparr>]))
      else None)"

subsection \<open>The cmp_key and _get_other methods\<close>

text \<open>The default \<open>ComparableObjectMixin.cmp_key\<close>: \<open>return str(self)\<close>.\<close>

definition ComparableObjectMixin_cmp_key :: "pyval \<Rightarrow> pyval \<Rightarrow> string \<Rightarrow> error + key" where
  "ComparableObjectMixin_cmp_key self other op = Inr (KStr (str_of self))"

text \<open>
  \<open>cmp_key ct v other op\<close> is the call \<open>v.cmp_key(other, op)\<close> with Python's method
  lookup: a built-in value has no such attribute, a user class uses its override or
  inherits the default, and \<open>Infinity\<close> has its own method.

  \<open>Infinity.cmp_key\<close> and \<open>Infinity._get_other\<close> call each other and \<open>cmp_key\<close> of the
  other operand, as in the source:
  \<^verbatim>\<open>
    def _get_other(self, other, op):
        return getattr(other, 'cmp_key', lambda ot, op: str(other))(self, op)

    def cmp_key(self, other, op):
        if isinstance(other, Infinity):
            return str(self)
        if self.sign == 'pos':
            okey = self._get_other(other, op)
            return '{} '.format(okey)
        return None
  \<close>
\<close>

function cmp_key :: "classes \<Rightarrow> pyval \<Rightarrow> pyval \<Rightarrow> string \<Rightarrow> error + key"
  and Infinity_cmp_key :: "classes \<Rightarrow> infinity \<Rightarrow> pyval \<Rightarrow> string \<Rightarrow> error + key"
  and Infinity_get_other :: "classes \<Rightarrow> infinity \<Rightarrow> pyval \<Rightarrow> string \<Rightarrow> error + key"
where
  "cmp_key ct (Builtin s) other op = Inl AttributeError"
| "cmp_key ct (User c s) other op =
     (case ct c of
        None \<Rightarrow> ComparableObjectMixin_cmp_key (User c s) other op
      | Some f \<Rightarrow> f (User c s) other op)"
| "cmp_key ct (Infinity i) other op = Infinity_cmp_key ct i other op"
| "Infinity_cmp_key ct self other op =
     (if isinstance_Infinity other then Inr (KStr (str_of (Infinity self)))
      else if sign self = ''pos'' then
        (case Infinity_get_other ct self other op of
           Inl e \<Rightarrow> Inl e
         | Inr okey \<Rightarrow> Inr (KStr (format_space okey)))
      else Inr KNone)"
| "Infinity_get_other ct self other op =
     (if hasattr_cmp_key other then cmp_key ct other (Infinity self) op
      else Inr (KStr (str_of other)))"
  by pat_completeness auto
termination
  by (relation "measure (\<lambda>x. case x of
        Inl (ct, v, other, op) \<Rightarrow>
          (if isinstance_Infinity v then (if isinstance_Infinity other then 1 else 4) else 0)
      | Inr (Inl (ct, self, other, op)) \<Rightarrow> (if isinstance_Infinity other then 0 else 3)
      | Inr (Inr (ct, self, other, op)) \<Rightarrow> (if isinstance_Infinity other then 2 else 1))")
    auto

text \<open>\<open>ComparableObjectMixin._get_other\<close>: \<open>return other.cmp_key(self, op)\<close>.\<close>

definition ComparableObjectMixin_get_other :: "classes \<Rightarrow> pyval \<Rightarrow> pyval \<Rightarrow> string \<Rightarrow> error + key" where
  "ComparableObjectMixin_get_other ct self other op = cmp_key ct other self op"

text \<open>
  \<open>get_other ct v other op\<close> is the call \<open>v._get_other(other, op)\<close> with method lookup:
  \<open>Infinity\<close> overrides the method, a user class inherits the mixin's.
\<close>

fun get_other :: "classes \<Rightarrow> pyval \<Rightarrow> pyval \<Rightarrow> string \<Rightarrow> error + key" where
  "get_other ct (Builtin s) other op = Inl AttributeError"
| "get_other ct (User c s) other op = ComparableObjectMixin_get_other ct (User c s) other op"
| "get_other ct (Infinity i) other op = Infinity_get_other ct i other op"

subsection \<open>_compare and the six comparison methods\<close>

text \<open>
  A comparison method returns a truth value or the constant \<open>NotImplemented\<close>.
\<close>

datatype cmpres = PyBool bool | NotImplemented

text \<open>
  The clause \<open>except (TypeError, AttributeError): return NotImplemented\<close>: these two
  exception classes are caught, every other exception propagates.
\<close>

definition except_clause :: "error \<Rightarrow> error + cmpres" where
  "except_clause e = (if e = TypeError \<or> e = AttributeError then Inr NotImplemented else Inl e)"

text \<open>
  \<^verbatim>\<open>
    def _compare(self, other, op, compare):
        try:
            return compare(self.cmp_key(other, op), self._get_other(other, op))
        except (TypeError, AttributeError):
            return NotImplemented
  \<close>
  The arguments are evaluated from left to right, then \<open>compare\<close> is called; all three
  steps are inside the \<open>try\<close>.
\<close>

definition ComparableObjectMixin_compare ::
  "classes \<Rightarrow> pyval \<Rightarrow> pyval \<Rightarrow> string \<Rightarrow> (key \<Rightarrow> key \<Rightarrow> error + bool) \<Rightarrow> error + cmpres" where
  "ComparableObjectMixin_compare ct self other op compare =
     (case cmp_key ct self other op of
        Inl e \<Rightarrow> except_clause e
      | Inr s \<Rightarrow>
          (case get_other ct self other op of
             Inl e \<Rightarrow> except_clause e
           | Inr t \<Rightarrow>
               (case compare s t of
                  Inl e \<Rightarrow> except_clause e
                | Inr b \<Rightarrow> Inr (PyBool b))))"

text \<open>
  \<open>__eq__\<close>, \<open>__ne__\<close>, \<open>__gt__\<close>, \<open>__ge__\<close>, \<open>__lt__\<close>, \<open>__le__\<close>. Each passes the name of
  the operation and a lambda applying the operator to the two keys; on keys that are
  strings or \<open>None\<close> the Python 2 operators do not raise.
\<close>

definition ComparableObjectMixin_eq :: "classes \<Rightarrow> pyval \<Rightarrow> pyval \<Rightarrow> error + cmpres" where
  "ComparableObjectMixin_eq ct self other =
     ComparableObjectMixin_compare ct self other ''eq'' (\<lambda>s t. Inr (s = t))"

definition ComparableObjectMixin_ne :: "classes \<Rightarrow> pyval \<Rightarrow> pyval \<Rightarrow> error + cmpres" where
  "ComparableObjectMixin_ne ct self other =
     ComparableObjectMixin_compare ct self other ''ne'' (\<lambda>s t. Inr (s \<noteq> t))"

definition ComparableObjectMixin_gt :: "classes \<Rightarrow> pyval \<Rightarrow> pyval \<Rightarrow> error + cmpres" where
  "ComparableObjectMixin_gt ct self other =
     ComparableObjectMixin_compare ct self other ''gt'' (\<lambda>s t. Inr (key_gt s t))"

definition ComparableObjectMixin_ge :: "classes \<Rightarrow> pyval \<Rightarrow> pyval \<Rightarrow> error + cmpres" where
  "ComparableObjectMixin_ge ct self other =
     ComparableObjectMixin_compare ct self other ''ge'' (\<lambda>s t. Inr (key_ge s t))"

definition ComparableObjectMixin_lt :: "classes \<Rightarrow> pyval \<Rightarrow> pyval \<Rightarrow> error + cmpres" where
  "ComparableObjectMixin_lt ct self other =
     ComparableObjectMixin_compare ct self other ''lt'' (\<lambda>s t. Inr (key_lt s t))"

definition ComparableObjectMixin_le :: "classes \<Rightarrow> pyval \<Rightarrow> pyval \<Rightarrow> error + cmpres" where
  "ComparableObjectMixin_le ct self other =
     ComparableObjectMixin_compare ct self other ''le'' (\<lambda>s t. Inr (key_le s t))"

subsection \<open>The comparison operators of the interpreter\<close>

text \<open>
  An expression \<open>a > b\<close> is evaluated by the interpreter, not by the module: it calls
  \<open>a.__gt__(b)\<close>; if that returns \<open>NotImplemented\<close> it calls the reflected method
  \<open>b.__lt__(a)\<close>; if that returns \<open>NotImplemented\<close> as well, the interpreter's default
  comparison decides (object identity for \<open>==\<close> and \<open>!=\<close>), which never raises. An
  exception raised by a method propagates. The model records the last case as
  \<open>Default\<close>.

  \<open>call m ct v w\<close> is the call of comparison method \<open>m\<close> on \<open>v\<close>: an instance of one of
  the module's classes runs the mixin's method, a built-in value does not handle the
  operand.
\<close>

datatype outcome = Answer bool | Default

fun call :: "(classes \<Rightarrow> pyval \<Rightarrow> pyval \<Rightarrow> error + cmpres) \<Rightarrow> classes \<Rightarrow> pyval \<Rightarrow> pyval \<Rightarrow> error + cmpres" where
  "call m ct (Builtin s) w = Inr NotImplemented"
| "call m ct v w = m ct v w"

definition operator ::
  "(classes \<Rightarrow> pyval \<Rightarrow> pyval \<Rightarrow> error + cmpres) \<Rightarrow> (classes \<Rightarrow> pyval \<Rightarrow> pyval \<Rightarrow> error + cmpres)
     \<Rightarrow> classes \<Rightarrow> pyval \<Rightarrow> pyval \<Rightarrow> error + outcome" where
  "operator m reflected ct a b =
     (case call m ct a b of
        Inl e \<Rightarrow> Inl e
      | Inr (PyBool x) \<Rightarrow> Inr (Answer x)
      | Inr NotImplemented \<Rightarrow>
          (case call reflected ct b a of
             Inl e \<Rightarrow> Inl e
           | Inr (PyBool x) \<Rightarrow> Inr (Answer x)
           | Inr NotImplemented \<Rightarrow> Inr Default))"

definition py_eq :: "classes \<Rightarrow> pyval \<Rightarrow> pyval \<Rightarrow> error + outcome" where
  "py_eq = operator ComparableObjectMixin_eq ComparableObjectMixin_eq"

definition py_ne :: "classes \<Rightarrow> pyval \<Rightarrow> pyval \<Rightarrow> error + outcome" where
  "py_ne = operator ComparableObjectMixin_ne ComparableObjectMixin_ne"

definition py_gt :: "classes \<Rightarrow> pyval \<Rightarrow> pyval \<Rightarrow> error + outcome" where
  "py_gt = operator ComparableObjectMixin_gt ComparableObjectMixin_lt"

definition py_ge :: "classes \<Rightarrow> pyval \<Rightarrow> pyval \<Rightarrow> error + outcome" where
  "py_ge = operator ComparableObjectMixin_ge ComparableObjectMixin_le"

definition py_lt :: "classes \<Rightarrow> pyval \<Rightarrow> pyval \<Rightarrow> error + outcome" where
  "py_lt = operator ComparableObjectMixin_lt ComparableObjectMixin_gt"

definition py_le :: "classes \<Rightarrow> pyval \<Rightarrow> pyval \<Rightarrow> error + outcome" where
  "py_le = operator ComparableObjectMixin_le ComparableObjectMixin_ge"

subsection \<open>Vocabulary of the properties\<close>

text \<open>The class table in which no user class overrides \<open>cmp_key\<close>.\<close>

definition no_overrides :: classes where
  "no_overrides c = None"

text \<open>The positive sentinel \<open>Infinity()\<close> and the negative one, as object states.\<close>

definition pos_inf :: infinity where
  "pos_inf = Infinity_init \<lparr>sign = []\<rparr>"

definition neg_inf :: infinity where
  "neg_inf = \<lparr>sign = ''neg''\<rparr>"

text \<open>
  An ordinary comparable value, seen from a sentinel \<open>s\<close> in a comparison \<open>op\<close>: it is
  not an \<open>Infinity\<close>, it has a textual form, and its key is a string: the string
  \<open>str(v)\<close> for a built-in value, the string its \<open>cmp_key(s, op)\<close> returns otherwise.
\<close>

fun is_str_key :: "error + key \<Rightarrow> bool" where
  "is_str_key (Inr (KStr k)) = True"
| "is_str_key r = False"

fun ordinary :: "classes \<Rightarrow> pyval \<Rightarrow> pyval \<Rightarrow> string \<Rightarrow> bool" where
  "ordinary ct (Builtin b) s op = True"
| "ordinary ct (Infinity i) s op = False"
| "ordinary ct (User c n) s op = is_str_key (cmp_key ct (User c n) s op)"

text \<open>
  The condition of step 4 of the comparison contract: computing the receiver's key
  raises \<open>TypeError\<close> or \<open>AttributeError\<close>, or it returns a key and computing the other
  side's key then raises one of the two.
\<close>

definition key_error_caught :: "classes \<Rightarrow> pyval \<Rightarrow> pyval \<Rightarrow> string \<Rightarrow> bool" where
  "key_error_caught ct self other op =
     (case cmp_key ct self other op of
        Inl e \<Rightarrow> e = TypeError \<or> e = AttributeError
      | Inr s \<Rightarrow>
          (case get_other ct self other op of
             Inl e \<Rightarrow> e = TypeError \<or> e = AttributeError
           | Inr t \<Rightarrow> False))"

text \<open>A class table in which every user class overrides \<open>cmp_key\<close> by a method that raises \<open>TypeError\<close>.\<close>

definition type_error_overrides :: classes where
  "type_error_overrides c = Some (\<lambda>self other op. Inl TypeError)"

section \<open>Properties\<close>

subsection \<open>Auxiliary facts\<close>

lemma less_append_char: "(xs :: string) < xs @ [c]"
  by (induction xs) simp_all

lemma is_str_keyE: "is_str_key r \<Longrightarrow> \<exists>k. r = Inr (KStr k)"
  by (cases r rule: is_str_key.cases) simp_all

lemma sign_pos_inf [simp]: "sign pos_inf = ''pos''"
  by (simp add: pos_inf_def Infinity_init_def)

lemma sign_neg_inf [simp]: "sign neg_inf = ''neg''"
  by (simp add: neg_inf_def)

lemma ordinary_not_Infinity: "ordinary ct v s op \<Longrightarrow> \<not> isinstance_Infinity v"
  by (cases v) simp_all

text \<open>
  What \<open>Infinity._get_other\<close> obtains from an ordinary value is a string: the value's own
  key if it has \<open>cmp_key\<close>, its textual form otherwise.
\<close>

lemma Infinity_get_other_ordinary:
  assumes "ordinary ct v (Infinity i) op"
  shows "\<exists>k. Infinity_get_other ct i v op = Inr (KStr k)"
  using assms by (cases v) (auto dest: is_str_keyE)

lemma pos_cmp_key_ordinary:
  assumes "ordinary ct v (Infinity pos_inf) op"
      and "Infinity_get_other ct pos_inf v op = Inr (KStr k)"
  shows "cmp_key ct (Infinity pos_inf) v op = Inr (KStr (k @ '' ''))"
  using assms(2) ordinary_not_Infinity [OF assms(1)]
  by (simp del: Infinity_get_other.simps)

lemma neg_cmp_key_ordinary:
  assumes "ordinary ct v (Infinity neg_inf) op"
  shows "cmp_key ct (Infinity neg_inf) v op = Inr KNone"
  using ordinary_not_Infinity [OF assms] by simp

lemma gt_pos_ordinary:
  assumes "ordinary ct v (Infinity pos_inf) ''gt''"
  shows "ComparableObjectMixin_gt ct (Infinity pos_inf) v = Inr (PyBool True)"
proof -
  from Infinity_get_other_ordinary [OF assms] obtain k
    where k: "Infinity_get_other ct pos_inf v ''gt'' = Inr (KStr k)" by blast
  show ?thesis
    unfolding ComparableObjectMixin_gt_def ComparableObjectMixin_compare_def
    by (simp add: pos_cmp_key_ordinary [OF assms k] k key_gt_def less_append_char
        del: cmp_key.simps Infinity_get_other.simps)
qed

lemma lt_neg_ordinary:
  assumes "ordinary ct v (Infinity neg_inf) ''lt''"
  shows "ComparableObjectMixin_lt ct (Infinity neg_inf) v = Inr (PyBool True)"
proof -
  from Infinity_get_other_ordinary [OF assms] obtain k
    where k: "Infinity_get_other ct neg_inf v ''lt'' = Inr (KStr k)" by blast
  show ?thesis
    unfolding ComparableObjectMixin_lt_def ComparableObjectMixin_compare_def
    by (simp add: neg_cmp_key_ordinary [OF assms] k
        del: cmp_key.simps Infinity_get_other.simps)
qed

subsection \<open>The positive sentinel against ordinary values\<close>

text \<open>
  C1. For every ordinary comparable value \<open>v\<close> (not an \<open>Infinity\<close>, with a textual form and
  a string key), \<open>Infinity() > v\<close> is \<open>True\<close> and \<open>v < Infinity()\<close> is \<open>True\<close>. The key of the
  positive sentinel is the key obtained from \<open>v\<close> followed by one more character, a
  space, and so is strictly greater than it.
\<close>

theorem positive_infinity_greater:
  assumes "ordinary ct v (Infinity pos_inf) ''gt''"
      and "ordinary ct v (Infinity pos_inf) ''lt''"
  shows "py_gt ct (Infinity pos_inf) v = Inr (Answer True)
       \<and> py_lt ct v (Infinity pos_inf) = Inr (Answer True)
       \<and> (\<exists>k. Infinity_get_other ct pos_inf v ''gt'' = Inr (KStr k)
              \<and> cmp_key ct (Infinity pos_inf) v ''gt'' = Inr (KStr (k @ '' ''))
              \<and> k < k @ '' '')"
proof (intro conjI)
  show "py_gt ct (Infinity pos_inf) v = Inr (Answer True)"
    by (simp add: py_gt_def operator_def gt_pos_ordinary [OF assms(1)])
next
  show "py_lt ct v (Infinity pos_inf) = Inr (Answer True)"
  proof (cases v)
    case (Builtin b)
    then show ?thesis
      using gt_pos_ordinary [OF assms(1)] by (simp add: py_lt_def operator_def)
  next
    case (Infinity i)
    with assms show ?thesis by simp
  next
    case (User c n)
    with assms(2) obtain k
      where k: "cmp_key ct (User c n) (Infinity pos_inf) ''lt'' = Inr (KStr k)"
      by (auto dest: is_str_keyE)
    have "ComparableObjectMixin_lt ct (User c n) (Infinity pos_inf) = Inr (PyBool True)"
      using k by (simp add: ComparableObjectMixin_lt_def ComparableObjectMixin_compare_def
          ComparableObjectMixin_get_other_def less_append_char)
    with User show ?thesis by (simp add: py_lt_def operator_def)
  qed
next
  from Infinity_get_other_ordinary [OF assms(1)] obtain k
    where k: "Infinity_get_other ct pos_inf v ''gt'' = Inr (KStr k)" by blast
  with pos_cmp_key_ordinary [OF assms(1) k] less_append_char [of k "CHR '' ''"]
  show "\<exists>k. Infinity_get_other ct pos_inf v ''gt'' = Inr (KStr k)
          \<and> cmp_key ct (Infinity pos_inf) v ''gt'' = Inr (KStr (k @ '' ''))
          \<and> k < k @ '' ''"
    by blast
qed

theorem positive_infinity_greater_witness:
  "ordinary no_overrides (User 0 ''QA 76.9'') (Infinity pos_inf) ''gt''
   \<and> ordinary no_overrides (User 0 ''QA 76.9'') (Infinity pos_inf) ''lt''
   \<and> py_gt no_overrides (Infinity pos_inf) (User 0 ''QA 76.9'') = Inr (Answer True)
   \<and> py_lt no_overrides (User 0 ''QA 76.9'') (Infinity pos_inf) = Inr (Answer True)"
proof -
  have g: "ordinary no_overrides (User 0 ''QA 76.9'') (Infinity pos_inf) ''gt''"
    by (simp add: no_overrides_def ComparableObjectMixin_cmp_key_def)
  have l: "ordinary no_overrides (User 0 ''QA 76.9'') (Infinity pos_inf) ''lt''"
    by (simp add: no_overrides_def ComparableObjectMixin_cmp_key_def)
  from positive_infinity_greater [OF g l] g l show ?thesis by blast
qed

subsection \<open>The negative sentinel against ordinary values\<close>

text \<open>
  C2. For every ordinary comparable value \<open>v\<close>, \<open>-Infinity() < v\<close> is \<open>True\<close> and
  \<open>v > -Infinity()\<close> is \<open>True\<close>: the key of the negative sentinel is \<open>None\<close>, which is
  smaller than every string, the empty one included.
\<close>

theorem negative_infinity_less:
  assumes "ordinary ct v (Infinity neg_inf) ''lt''"
      and "ordinary ct v (Infinity neg_inf) ''gt''"
  shows "py_lt ct (Infinity neg_inf) v = Inr (Answer True)
       \<and> py_gt ct v (Infinity neg_inf) = Inr (Answer True)
       \<and> cmp_key ct (Infinity neg_inf) v ''lt'' = Inr KNone
       \<and> (\<forall>s. key_lt KNone (KStr s))"
proof (intro conjI)
  show "py_lt ct (Infinity neg_inf) v = Inr (Answer True)"
    by (simp add: py_lt_def operator_def lt_neg_ordinary [OF assms(1)])
next
  show "py_gt ct v (Infinity neg_inf) = Inr (Answer True)"
  proof (cases v)
    case (Builtin b)
    then show ?thesis
      using lt_neg_ordinary [OF assms(1)] by (simp add: py_gt_def operator_def)
  next
    case (Infinity i)
    with assms show ?thesis by simp
  next
    case (User c n)
    with assms(2) obtain k
      where k: "cmp_key ct (User c n) (Infinity neg_inf) ''gt'' = Inr (KStr k)"
      by (auto dest: is_str_keyE)
    have "ComparableObjectMixin_gt ct (User c n) (Infinity neg_inf) = Inr (PyBool True)"
      using k by (simp add: ComparableObjectMixin_gt_def ComparableObjectMixin_compare_def
          ComparableObjectMixin_get_other_def key_gt_def)
    with User show ?thesis by (simp add: py_gt_def operator_def)
  qed
next
  show "cmp_key ct (Infinity neg_inf) v ''lt'' = Inr KNone"
    by (rule neg_cmp_key_ordinary [OF assms(1)])
next
  show "\<forall>s. key_lt KNone (KStr s)" by simp
qed

theorem negative_infinity_less_witness:
  "ordinary no_overrides (Builtin []) (Infinity neg_inf) ''lt''
   \<and> ordinary no_overrides (Builtin []) (Infinity neg_inf) ''gt''
   \<and> py_lt no_overrides (Infinity neg_inf) (Builtin []) = Inr (Answer True)
   \<and> py_gt no_overrides (Builtin []) (Infinity neg_inf) = Inr (Answer True)"
proof -
  have l: "ordinary no_overrides (Builtin []) (Infinity neg_inf) ''lt''" by simp
  have g: "ordinary no_overrides (Builtin []) (Infinity neg_inf) ''gt''" by simp
  from negative_infinity_less [OF l g] l g show ?thesis by blast
qed

subsection \<open>Sentinel against sentinel\<close>

text \<open>
  C3. \<open>Infinity() > -Infinity()\<close> is \<open>True\<close> and \<open>-Infinity() < Infinity()\<close> is \<open>True\<close>. Both
  keys are the textual labels, \<open><pos infinity>\<close> and \<open><neg infinity>\<close>, and the first is
  the greater string.
\<close>

theorem positive_above_negative:
  "py_gt ct (Infinity pos_inf) (Infinity neg_inf) = Inr (Answer True)
   \<and> py_lt ct (Infinity neg_inf) (Infinity pos_inf) = Inr (Answer True)
   \<and> cmp_key ct (Infinity pos_inf) (Infinity neg_inf) op = Inr (KStr ''<pos infinity>'')
   \<and> cmp_key ct (Infinity neg_inf) (Infinity pos_inf) op = Inr (KStr ''<neg infinity>'')"
  by (simp add: py_gt_def py_lt_def operator_def ComparableObjectMixin_gt_def
      ComparableObjectMixin_lt_def ComparableObjectMixin_compare_def Infinity_repr_def key_gt_def)

subsection \<open>Negation\<close>

lemma Infinity_neg_Some:
  assumes "self < length h"
  shows "Infinity_neg h self =
     Some (length h, h @ [\<lparr>sign = (if sign (h ! self) = ''pos'' then ''neg'' else ''pos'')\<rparr>])"
  using assms by (simp add: Infinity_neg_def Infinity_new_def Infinity_init_def nth_append)

lemma pos_inf_eq: "pos_inf = \<lparr>sign = ''pos''\<rparr>"
  by (simp add: pos_inf_def Infinity_init_def)

text \<open>Whatever the receiver, the object \<open>__neg__\<close> returns has sign \<open>'pos'\<close> or \<open>'neg'\<close>.\<close>

lemma Infinity_neg_well_signed:
  assumes "Infinity_neg h a = Some (b, h')"
  shows "sign (h' ! b) = ''pos'' \<or> sign (h' ! b) = ''neg''"
proof (cases "a < length h")
  case True
  with assms show ?thesis by (auto simp add: Infinity_neg_Some)
next
  case False
  with assms show ?thesis by (simp add: Infinity_neg_def)
qed

text \<open>
  C4. \<open>-s\<close> returns a new object whose sign is the flipped sign of \<open>s\<close>; every object that
  was in the store before, \<open>s\<close> included, is unchanged afterward. The negation of a
  positive sentinel is in the state of a negative sentinel and gives the same result in
  every comparison, on either side of the operator, and the negation of a negative
  sentinel likewise equals a newly constructed \<open>Infinity()\<close>.
\<close>

theorem negation_fresh_and_flipped:
  assumes "self < length h"
  shows "\<exists>ret h'. Infinity_neg h self = Some (ret, h')
     \<and> ret \<noteq> self \<and> ret < length h'
     \<and> (\<forall>a < length h. h' ! a = h ! a)
     \<and> h' ! self = h ! self
     \<and> sign (h' ! ret) = (if sign (h ! self) = ''pos'' then ''neg'' else ''pos'')
     \<and> (sign (h ! self) = ''pos'' \<longrightarrow> h' ! ret = neg_inf
          \<and> (\<forall>cmp \<in> {py_eq, py_ne, py_gt, py_ge, py_lt, py_le}. \<forall>ct v.
                cmp ct (Infinity (h' ! ret)) v = cmp ct (Infinity neg_inf) v
              \<and> cmp ct v (Infinity (h' ! ret)) = cmp ct v (Infinity neg_inf)))
     \<and> (sign (h ! self) = ''neg'' \<longrightarrow> h' ! ret = pos_inf
          \<and> (\<forall>cmp \<in> {py_eq, py_ne, py_gt, py_ge, py_lt, py_le}. \<forall>ct v.
                cmp ct (Infinity (h' ! ret)) v = cmp ct (Infinity pos_inf) v
              \<and> cmp ct v (Infinity (h' ! ret)) = cmp ct v (Infinity pos_inf)))"
  using assms
  by (simp add: Infinity_neg_Some nth_append neg_inf_def pos_inf_eq)

theorem negation_fresh_and_flipped_witness:
  "(0::nat) < length [pos_inf]
   \<and> Infinity_neg [pos_inf] 0 = Some (1, [pos_inf, neg_inf])
   \<and> (\<exists>ret h'. Infinity_neg [pos_inf] 0 = Some (ret, h')
         \<and> h' ! 0 = [pos_inf] ! 0 \<and> h' ! ret = neg_inf)"
proof -
  have h: "(0::nat) < length [pos_inf]" by simp
  have "Infinity_neg [pos_inf] 0 = Some (1, [pos_inf, neg_inf])"
    by (simp add: Infinity_neg_Some neg_inf_def)
  with negation_fresh_and_flipped [OF h] h show ?thesis by auto
qed

text \<open>
  C9. Negation is an involution on sentinels: for a sentinel of sign \<open>'pos'\<close> or \<open>'neg'\<close>,
  negating twice succeeds and gives an object with the sign of the original, which is
  itself unchanged and compares equal to the result under \<open>==\<close>.
\<close>

theorem double_negation:
  assumes "a < length h" and "sign (h ! a) = ''pos'' \<or> sign (h ! a) = ''neg''"
  shows "\<exists>b h1 c h2. Infinity_neg h a = Some (b, h1) \<and> Infinity_neg h1 b = Some (c, h2)
     \<and> sign (h2 ! c) = sign (h ! a) \<and> h2 ! a = h ! a
     \<and> py_eq ct (Infinity (h2 ! c)) (Infinity (h2 ! a)) = Inr (Answer True)"
  using assms
  by (auto simp add: Infinity_neg_Some nth_append Infinity_repr_def
      py_eq_def operator_def ComparableObjectMixin_eq_def ComparableObjectMixin_compare_def)

theorem double_negation_witness:
  "(0::nat) < length [neg_inf]
   \<and> (sign ([neg_inf] ! 0) = ''pos'' \<or> sign ([neg_inf] ! 0) = ''neg'')
   \<and> (\<exists>b h1 c h2. Infinity_neg [neg_inf] 0 = Some (b, h1) \<and> Infinity_neg h1 b = Some (c, h2)
         \<and> sign (h2 ! c) = ''neg''
         \<and> py_eq no_overrides (Infinity (h2 ! c)) (Infinity (h2 ! 0)) = Inr (Answer True))"
proof -
  have l: "(0::nat) < length [neg_inf]" by simp
  have s: "sign ([neg_inf] ! 0) = ''pos'' \<or> sign ([neg_inf] ! 0) = ''neg''" by simp
  from double_negation [OF l s, of no_overrides] l s show ?thesis by auto
qed

subsection \<open>The other side's key in the mixin\<close>

lemmas method_defs =
  ComparableObjectMixin_eq_def ComparableObjectMixin_ne_def
  ComparableObjectMixin_gt_def ComparableObjectMixin_ge_def
  ComparableObjectMixin_lt_def ComparableObjectMixin_le_def

lemmas operator_defs = py_eq_def py_ne_def py_gt_def py_ge_def py_lt_def py_le_def

text \<open>
  C5, as stated: in \<open>ComparableObjectMixin\<close>, when the other value has no \<open>cmp_key\<close>, its
  textual form \<open>str(b)\<close> is used as its key. The code does not do this: for an instance
  rendering as \<open>a\<close> compared with the plain string \<open>b\<close>, the mixin's \<open>_get_other\<close> raises
  \<open>AttributeError\<close> instead of returning the key \<open>b\<close>, and \<open>__lt__\<close> returns
  \<open>NotImplemented\<close> instead of the truth value of \<open>'a' < 'b'\<close>.
\<close>

theorem mixin_fallback_counterexample:
  "ComparableObjectMixin_get_other no_overrides (User 0 ''a'') (Builtin ''b'') ''lt''
     = Inl AttributeError
   \<and> ComparableObjectMixin_get_other no_overrides (User 0 ''a'') (Builtin ''b'') ''lt''
     \<noteq> Inr (KStr ''b'')
   \<and> ComparableObjectMixin_lt no_overrides (User 0 ''a'') (Builtin ''b'') = Inr NotImplemented
   \<and> ComparableObjectMixin_lt no_overrides (User 0 ''a'') (Builtin ''b'')
     \<noteq> Inr (PyBool (''a'' < ''b''))"
  by (simp add: ComparableObjectMixin_get_other_def ComparableObjectMixin_lt_def
      ComparableObjectMixin_compare_def no_overrides_def ComparableObjectMixin_cmp_key_def
      except_clause_def)

text \<open>
  C5, amended: \<open>ComparableObjectMixin._get_other\<close> asks the other value for its
  \<open>cmp_key\<close> with no fallback. When the other value has no \<open>cmp_key\<close> the call raises
  \<open>AttributeError\<close>; \<open>_compare\<close> catches it, so once the receiver's own key has been
  computed the comparison returns \<open>NotImplemented\<close> (always, for a class that inherits
  the default \<open>cmp_key\<close>). The fallback to \<open>str(b)\<close> exists in \<open>Infinity._get_other\<close> only.
\<close>

theorem mixin_get_other_no_fallback:
  "ComparableObjectMixin_get_other ct (User c s) (Builtin b) op = Inl AttributeError
   \<and> ComparableObjectMixin_compare ct (User c s) (Builtin b) op compare =
       (case cmp_key ct (User c s) (Builtin b) op of
          Inl e \<Rightarrow> except_clause e
        | Inr k \<Rightarrow> Inr NotImplemented)
   \<and> (ct c = None \<longrightarrow>
        ComparableObjectMixin_compare ct (User c s) (Builtin b) op compare = Inr NotImplemented)
   \<and> Infinity_get_other ct i (Builtin b) op = Inr (KStr b)"
  by (simp add: ComparableObjectMixin_get_other_def ComparableObjectMixin_compare_def
      ComparableObjectMixin_cmp_key_def except_clause_def split: sum.splits option.splits)

theorem mixin_get_other_no_fallback_witness:
  "no_overrides 0 = None
   \<and> ComparableObjectMixin_get_other no_overrides (User 0 ''a'') (Builtin ''5'') ''eq''
       = Inl AttributeError
   \<and> ComparableObjectMixin_compare no_overrides (User 0 ''a'') (Builtin ''5'') ''eq''
       (\<lambda>s t. Inr (s = t)) = Inr NotImplemented
   \<and> Infinity_get_other no_overrides pos_inf (Builtin ''5'') ''eq'' = Inr (KStr ''5'')"
proof -
  have n: "no_overrides 0 = None" by (simp add: no_overrides_def)
  from mixin_get_other_no_fallback
         [of no_overrides 0 "''a''" "''5''" "''eq''" "\<lambda>s t. Inr (s = t)" pos_inf] n
  show ?thesis by blast
qed

subsection \<open>Errors while computing a key\<close>

lemma compare_key_error:
  assumes "key_error_caught ct self other op"
  shows "ComparableObjectMixin_compare ct self other op compare = Inr NotImplemented"
  using assms unfolding key_error_caught_def ComparableObjectMixin_compare_def
  by (auto simp add: except_clause_def split: sum.splits)

text \<open>An exception of any other class is not caught: it leaves \<open>_compare\<close>.\<close>

lemma compare_other_error:
  assumes "cmp_key ct self other op = Inl (OtherError x)"
  shows "ComparableObjectMixin_compare ct self other op compare = Inl (OtherError x)"
  using assms by (simp add: ComparableObjectMixin_compare_def except_clause_def)

text \<open>
  C6. Whenever computing the receiver's key, or then the other side's key, raises
  \<open>TypeError\<close> or \<open>AttributeError\<close>, \<open>_compare\<close> returns \<open>NotImplemented\<close> and raises
  nothing, and so does each of \<open>__eq__\<close>, \<open>__ne__\<close>, \<open>__gt__\<close>, \<open>__ge__\<close>, \<open>__lt__\<close>,
  \<open>__le__\<close>. An equality test against a built-in value then ends in the interpreter's
  default comparison, not in an exception.
\<close>

theorem key_errors_give_NotImplemented:
  "(key_error_caught ct self other op \<longrightarrow>
      ComparableObjectMixin_compare ct self other op compare = Inr NotImplemented)
   \<and> (key_error_caught ct self other ''eq'' \<longrightarrow>
        ComparableObjectMixin_eq ct self other = Inr NotImplemented)
   \<and> (key_error_caught ct self other ''ne'' \<longrightarrow>
        ComparableObjectMixin_ne ct self other = Inr NotImplemented)
   \<and> (key_error_caught ct self other ''gt'' \<longrightarrow>
        ComparableObjectMixin_gt ct self other = Inr NotImplemented)
   \<and> (key_error_caught ct self other ''ge'' \<longrightarrow>
        ComparableObjectMixin_ge ct self other = Inr NotImplemented)
   \<and> (key_error_caught ct self other ''lt'' \<longrightarrow>
        ComparableObjectMixin_lt ct self other = Inr NotImplemented)
   \<and> (key_error_caught ct self other ''le'' \<longrightarrow>
        ComparableObjectMixin_le ct self other = Inr NotImplemented)
   \<and> (key_error_caught ct self (Builtin b) ''eq'' \<longrightarrow>
        py_eq ct self (Builtin b) = Inr Default)"
  unfolding method_defs py_eq_def operator_def
  by (cases self) (simp_all add: compare_key_error method_defs)

theorem key_errors_give_NotImplemented_witness:
  "key_error_caught no_overrides (User 0 ''a'') (Builtin ''5'') ''eq''
   \<and> ComparableObjectMixin_eq no_overrides (User 0 ''a'') (Builtin ''5'') = Inr NotImplemented
   \<and> py_eq no_overrides (User 0 ''a'') (Builtin ''5'') = Inr Default
   \<and> key_error_caught type_error_overrides (User 0 ''a'') (User 1 ''b'') ''lt''
   \<and> ComparableObjectMixin_lt type_error_overrides (User 0 ''a'') (User 1 ''b'')
       = Inr NotImplemented"
proof -
  have a: "key_error_caught no_overrides (User 0 ''a'') (Builtin ''5'') ''eq''"
    by (simp add: key_error_caught_def no_overrides_def ComparableObjectMixin_cmp_key_def
        ComparableObjectMixin_get_other_def)
  have t: "key_error_caught type_error_overrides (User 0 ''a'') (User 1 ''b'') ''lt''"
    by (simp add: key_error_caught_def type_error_overrides_def)
  from key_errors_give_NotImplemented [of no_overrides "User 0 ''a''" _ _ _ "''5''"]
       key_errors_give_NotImplemented [of type_error_overrides "User 0 ''a''" "User 1 ''b''"]
       a t
  show ?thesis by blast
qed

subsection \<open>Equality and reflexivity of sentinels\<close>

text \<open>
  C7. Two sentinels constructed one after the other by \<open>Infinity()\<close> are distinct
  objects that compare equal under \<open>==\<close>; so do the two negative sentinels obtained by
  negating each of them. Their keys are the same textual label.
\<close>

theorem independent_sentinels_equal:
  "\<exists>a h1 b h2 na h3 nb h4.
      Infinity_new h = (a, h1) \<and> Infinity_new h1 = (b, h2) \<and> a \<noteq> b
    \<and> sign (h2 ! a) = ''pos'' \<and> sign (h2 ! b) = ''pos''
    \<and> cmp_key ct (Infinity (h2 ! a)) (Infinity (h2 ! b)) ''eq'' = Inr (KStr ''<pos infinity>'')
    \<and> cmp_key ct (Infinity (h2 ! b)) (Infinity (h2 ! a)) ''eq'' = Inr (KStr ''<pos infinity>'')
    \<and> py_eq ct (Infinity (h2 ! a)) (Infinity (h2 ! b)) = Inr (Answer True)
    \<and> Infinity_neg h2 a = Some (na, h3) \<and> Infinity_neg h3 b = Some (nb, h4) \<and> na \<noteq> nb
    \<and> sign (h4 ! na) = ''neg'' \<and> sign (h4 ! nb) = ''neg''
    \<and> cmp_key ct (Infinity (h4 ! na)) (Infinity (h4 ! nb)) ''eq'' = Inr (KStr ''<neg infinity>'')
    \<and> cmp_key ct (Infinity (h4 ! nb)) (Infinity (h4 ! na)) ''eq'' = Inr (KStr ''<neg infinity>'')
    \<and> py_eq ct (Infinity (h4 ! na)) (Infinity (h4 ! nb)) = Inr (Answer True)"
  by (simp add: Infinity_new_def Infinity_neg_Some nth_append Infinity_init_def Infinity_repr_def
      py_eq_def operator_def ComparableObjectMixin_eq_def ComparableObjectMixin_compare_def)

text \<open>
  C10. For every sentinel \<open>s\<close>, of either sign, \<open>s > s\<close> and \<open>s < s\<close> are \<open>False\<close>, and
  \<open>s == s\<close>, \<open>s >= s\<close> and \<open>s <= s\<close> are \<open>True\<close>.
\<close>

theorem sentinel_reflexive:
  "py_gt ct (Infinity s) (Infinity s) = Inr (Answer False)
   \<and> py_lt ct (Infinity s) (Infinity s) = Inr (Answer False)
   \<and> py_eq ct (Infinity s) (Infinity s) = Inr (Answer True)
   \<and> py_ge ct (Infinity s) (Infinity s) = Inr (Answer True)
   \<and> py_le ct (Infinity s) (Infinity s) = Inr (Answer True)"
  by (simp add: operator_defs operator_def method_defs ComparableObjectMixin_compare_def
      key_gt_def key_ge_def)

subsection \<open>The default key\<close>

text \<open>
  C8. For classes that use the mixin and do not override \<open>cmp_key\<close>, each of the six
  operators on two instances gives what the same operator gives on their textual
  forms, compared as strings.
\<close>

theorem default_key_is_textual_form:
  assumes "ct c1 = None" and "ct c2 = None"
  shows "py_eq ct (User c1 s1) (User c2 s2) = Inr (Answer (s1 = s2))
       \<and> py_ne ct (User c1 s1) (User c2 s2) = Inr (Answer (s1 \<noteq> s2))
       \<and> py_gt ct (User c1 s1) (User c2 s2) = Inr (Answer (s1 > s2))
       \<and> py_ge ct (User c1 s1) (User c2 s2) = Inr (Answer (s1 \<ge> s2))
       \<and> py_lt ct (User c1 s1) (User c2 s2) = Inr (Answer (s1 < s2))
       \<and> py_le ct (User c1 s1) (User c2 s2) = Inr (Answer (s1 \<le> s2))"
  using assms
  by (simp add: operator_defs operator_def method_defs ComparableObjectMixin_compare_def
      ComparableObjectMixin_get_other_def ComparableObjectMixin_cmp_key_def key_gt_def key_ge_def)

theorem default_key_is_textual_form_witness:
  "no_overrides 0 = None
   \<and> py_lt no_overrides (User 0 ''a'') (User 0 ''b'') = Inr (Answer True)
   \<and> py_gt no_overrides (User 0 ''a'') (User 0 ''b'') = Inr (Answer False)
   \<and> py_eq no_overrides (User 0 ''a'') (User 0 ''b'') = Inr (Answer False)"
proof -
  have n: "no_overrides 0 = None" by (simp add: no_overrides_def)
  from default_key_is_textual_form [of no_overrides 0 0 "''a''" "''b''", OF n n] n
  show ?thesis by simp
qed

end
